theory Spec2Isabelle
  imports Complex_Main "HOL-Library.Char_ord" "HOL-Library.List_Lexorder"
begin

section \<open>Data model of backend/server.py\<close>

text \<open>
  The backend is a request-handling layer over a document store. Each collection of the
  store is a list of documents in insertion order; each endpoint is a function from the
  store (and the request) to a result and the store afterwards. An \<open>HTTPException\<close>
  raised by an endpoint is the \<open>Inl\<close> result; the store is returned in either case, so
  that what a failing request leaves behind is visible.

  Values the source draws from outside (\<open>uuid.uuid4()\<close>, \<open>datetime.now\<close>, the bcrypt
  hash, the signed token) are arguments of the endpoint functions. Python floats are the
  type variable \<open>'a\<close> with an addition and a zero and no law assumed about them.
\<close>

datatype UserRole = ADMIN | SUPERVISOR | TECHNICIAN | CLIENT

datatype WorkOrderStatus = PENDING | IN_PROGRESS | COMPLETED | APPROVED | CANCELLED

datatype SLAType = NORMAL | URGENT | CRITICAL

datatype RequestType = MEP | CIVIL | PLUMBING | ELECTRICAL | HVAC | OTHER

record User =
  u_id :: string
  u_email :: string
  u_name :: string
  u_role :: UserRole
  u_password_hash :: "string option"
  u_picture :: "string option"
  u_is_active :: bool
  u_created_at :: string

record UserCreate =
  uc_email :: string
  uc_name :: string
  uc_password :: string
  uc_role :: UserRole

record 'a WorkOrder =
  wo_id :: string
  wo_request_id :: string
  wo_title :: string
  wo_description :: string
  wo_status :: WorkOrderStatus
  wo_request_type :: RequestType
  wo_sla_type :: SLAType
  wo_location :: string
  wo_department :: "string option"
  wo_client_id :: string
  wo_client_name :: string
  wo_assigned_to_id :: "string option"
  wo_assigned_to_name :: "string option"
  wo_start_date :: "string option"
  wo_due_date :: "string option"
  wo_completed_at :: "string option"
  wo_duration_days :: "int option"
  wo_is_delayed :: bool
  wo_total_cost :: 'a
  wo_created_by_id :: string
  wo_created_by_name :: string
  wo_created_at :: string
  wo_updated_at :: string

record WorkOrderCreate =
  woc_title :: string
  woc_description :: string
  woc_request_type :: RequestType
  woc_sla_type :: SLAType
  woc_location :: string
  woc_department :: "string option"
  woc_client_id :: string
  woc_assigned_to_id :: "string option"
  woc_start_date :: "string option"
  woc_due_date :: "string option"
  woc_duration_days :: "int option"

record 'a WorkOrderUpdate =
  upd_title :: "string option"
  upd_description :: "string option"
  upd_status :: "WorkOrderStatus option"
  upd_request_type :: "RequestType option"
  upd_sla_type :: "SLAType option"
  upd_location :: "string option"
  upd_department :: "string option"
  upd_assigned_to_id :: "string option"
  upd_start_date :: "string option"
  upd_due_date :: "string option"
  upd_completed_at :: "string option"
  upd_duration_days :: "int option"
  upd_total_cost :: "'a option"

record 'a CostEntry =
  ce_id :: string
  ce_work_order_id :: string
  ce_description :: string
  ce_cost_type :: string
  ce_amount :: 'a
  ce_created_by_id :: string
  ce_created_by_name :: string
  ce_created_at :: string

record 'a CostEntryCreate =
  cec_work_order_id :: string
  cec_description :: string
  cec_cost_type :: string
  cec_amount :: 'a

record Notification =
  n_id :: string
  n_user_id :: string
  n_title :: string
  n_message :: string
  n_link :: "string option"
  n_is_read :: bool
  n_created_at :: string

text \<open>\<open>HTTPException(status_code, detail)\<close>.\<close>

datatype HTTPException = HTTPException nat string

text \<open>The collections of the document store that the work-order layer reads and writes.\<close>

record 'a db =
  users :: "User list"
  work_orders :: "'a WorkOrder list"
  cost_entries :: "'a CostEntry list"
  notifications :: "Notification list"

text \<open>The \<open>id\<close> and \<open>created_at\<close> that a model's default factories draw when a document
  is constructed.\<close>

record stamp =
  st_uuid :: string
  st_now :: string

section \<open>Document store primitives\<close>

text \<open>\<open>find_one\<close>: the first document that matches, or \<open>None\<close>.\<close>

definition find_one :: "('d \<Rightarrow> bool) \<Rightarrow> 'd list \<Rightarrow> 'd option" where
  "find_one p docs = List.find p docs"

text \<open>\<open>update_one\<close> with \<open>$set\<close>: the first document that matches is rewritten.\<close>

fun update_one :: "('d \<Rightarrow> bool) \<Rightarrow> ('d \<Rightarrow> 'd) \<Rightarrow> 'd list \<Rightarrow> 'd list" where
  "update_one p f [] = []"
| "update_one p f (d # ds) = (if p d then f d # ds else d # update_one p f ds)"

text \<open>\<open>delete_one\<close>: the first document that matches is removed; the result carries
  \<open>deleted_count\<close>.\<close>

fun delete_one :: "('d \<Rightarrow> bool) \<Rightarrow> 'd list \<Rightarrow> nat \<times> 'd list" where
  "delete_one p [] = (0, [])"
| "delete_one p (d # ds) =
     (if p d then (1, ds) else (case delete_one p ds of (n, ds') \<Rightarrow> (n, d # ds')))"

text \<open>\<open>cursor.to_list(n)\<close>: at most the first \<open>n\<close> documents of the cursor.\<close>

definition to_list :: "nat \<Rightarrow> 'd list \<Rightarrow> 'd list" where
  "to_list n docs = take n docs"

text \<open>\<open>cursor.sort("created_at", -1)\<close>: descending by the ISO timestamp string. (The
  store fixes no order among documents with equal timestamps; the model takes one.)\<close>

definition sort_created_at_desc :: "'a WorkOrder list \<Rightarrow> 'a WorkOrder list" where
  "sort_created_at_desc docs = rev (sort_key wo_created_at docs)"

text \<open>The query documents the source builds for the work-order collection: an absent key
  constrains nothing, a present key must be equal to the stored field.\<close>

record wo_query =
  q_client_id :: "string option"
  q_assigned_to_id :: "string option"
  q_status :: "WorkOrderStatus option"

definition empty_query :: wo_query where
  "empty_query = \<lparr>q_client_id = None, q_assigned_to_id = None, q_status = None\<rparr>"

definition matches :: "wo_query \<Rightarrow> 'a WorkOrder \<Rightarrow> bool" where
  "matches q w =
     ((case q_client_id q of None \<Rightarrow> True | Some c \<Rightarrow> wo_client_id w = c) \<and>
      (case q_assigned_to_id q of None \<Rightarrow> True | Some a \<Rightarrow> wo_assigned_to_id w = Some a) \<and>
      (case q_status q of None \<Rightarrow> True | Some s \<Rightarrow> wo_status w = s))"

definition count_documents :: "wo_query \<Rightarrow> 'a WorkOrder list \<Rightarrow> nat" where
  "count_documents q docs = length (filter (matches q) docs)"

section \<open>Helper functions\<close>

definition require_role :: "UserRole list \<Rightarrow> User \<Rightarrow> HTTPException + User" where
  "require_role allowed_roles current_user =
     (if u_role current_user \<notin> set allowed_roles
      then Inl (HTTPException 403 ''Insufficient permissions'')
      else Inr current_user)"

definition create_notification ::
  "stamp \<Rightarrow> string \<Rightarrow> string \<Rightarrow> string \<Rightarrow> string option \<Rightarrow> 'a db \<Rightarrow> 'a db" where
  "create_notification st user_id title message link d =
     d\<lparr>notifications := notifications d @
          [\<lparr>n_id = st_uuid st, n_user_id = user_id, n_title = title, n_message = message,
            n_link = link, n_is_read = False, n_created_at = st_now st\<rparr>]\<rparr>"

text \<open>The format specification \<open>05d\<close> on a non-negative integer: the decimal digits,
  padded with zeros on the left to at least five characters.\<close>

definition digit_char :: "nat \<Rightarrow> char" where
  "digit_char k = ''0123456789'' ! k"

fun decimal :: "nat \<Rightarrow> string" where
  "decimal n = (if n < 10 then [digit_char n] else decimal (n div 10) @ [digit_char (n mod 10)])"

declare decimal.simps [simp del]

definition format_05d :: "nat \<Rightarrow> string" where
  "format_05d n = replicate (5 - length (decimal n)) CHR ''0'' @ decimal n"


text \<open>How the f-string of the status notification renders a \<open>WorkOrderStatus\<close> member.
  The class mixes \<open>str\<close> into \<open>Enum\<close>, and \<open>update_data\<close> holds the member itself, so on
  Python 3.11 and later the member is formatted through \<open>Enum.__str__\<close>: the class name,
  a dot and the member's name. (Up to Python 3.10 the same f-string renders the member's
  value, such as \<open>completed\<close>; this changes the text of the message and nothing else.)\<close>

fun format_status :: "WorkOrderStatus \<Rightarrow> string" where
  "format_status PENDING = ''WorkOrderStatus.PENDING''"
| "format_status IN_PROGRESS = ''WorkOrderStatus.IN_PROGRESS''"
| "format_status COMPLETED = ''WorkOrderStatus.COMPLETED''"
| "format_status APPROVED = ''WorkOrderStatus.APPROVED''"
| "format_status CANCELLED = ''WorkOrderStatus.CANCELLED''"

text \<open>The builtin \<open>sum\<close>: from the start value 0, left to right. (On floats, CPython
  from 3.12 on compensates the rounding errors of this fold; the properties below use no
  law of the addition, only that the same function is applied to the same amounts.)\<close>

definition py_sum :: "'a::{plus,zero} list \<Rightarrow> 'a" where
  "py_sum xs = foldl (+) 0 xs"

section \<open>Auth routes\<close>

record PublicUser =
  pu_id :: string
  pu_email :: string
  pu_name :: string
  pu_role :: UserRole

text \<open>\<open>register\<close>. The arguments \<open>hash_password\<close> and \<open>create_access_token\<close> stand for
  the bcrypt hash (with its salt) and the signed token of a user id and an email.\<close>

definition register ::
  "(string \<Rightarrow> string) \<Rightarrow> (string \<Rightarrow> string \<Rightarrow> string) \<Rightarrow> stamp \<Rightarrow>
   'a db \<Rightarrow> UserCreate \<Rightarrow> (HTTPException + string \<times> PublicUser) \<times> 'a db" where
  "register hash_password create_access_token st d user_data =
     (case find_one (\<lambda>u. u_email u = uc_email user_data) (users d) of
        Some existing \<Rightarrow> (Inl (HTTPException 400 ''Email already registered''), d)
      | None \<Rightarrow>
          (let user = \<lparr>u_id = st_uuid st, u_email = uc_email user_data,
                       u_name = uc_name user_data, u_role = uc_role user_data,
                       u_password_hash = Some (hash_password (uc_password user_data)),
                       u_picture = None, u_is_active = True, u_created_at = st_now st\<rparr>;
               d1 = d\<lparr>users := users d @ [user]\<rparr>;
               token = create_access_token (u_id user) (u_email user)
           in (Inr (token, \<lparr>pu_id = u_id user, pu_email = u_email user,
                             pu_name = u_name user, pu_role = u_role user\<rparr>), d1)))"

section \<open>Work order routes\<close>

definition get_work_orders :: "'a db \<Rightarrow> User \<Rightarrow> 'a WorkOrder list" where
  "get_work_orders d current_user =
     (let query =
            (if u_role current_user = CLIENT
             then empty_query\<lparr>q_client_id := Some (u_id current_user)\<rparr>
             else if u_role current_user = TECHNICIAN
             then empty_query\<lparr>q_assigned_to_id := Some (u_id current_user)\<rparr>
             else empty_query)
      in to_list 1000 (sort_created_at_desc (filter (matches query) (work_orders d))))"

text \<open>\<open>create_work_order\<close>. \<open>wo_st\<close> and \<open>updated_now\<close> are the id and the two timestamps
  of the new work order, \<open>n1\<close> and \<open>n2\<close> the id and timestamp of the two notifications.\<close>

definition create_work_order ::
  "stamp \<Rightarrow> string \<Rightarrow> stamp \<Rightarrow> stamp \<Rightarrow> 'a::zero db \<Rightarrow> WorkOrderCreate \<Rightarrow> User \<Rightarrow>
   (HTTPException + 'a WorkOrder) \<times> 'a db" where
  "create_work_order wo_st updated_now n1 n2 d wo_data current_user =
     (case require_role [ADMIN, SUPERVISOR] current_user of
        Inl e \<Rightarrow> (Inl e, d)
      | Inr current_user \<Rightarrow>
          (let count = count_documents empty_query (work_orders d);
               request_id = ''WO-'' @ format_05d (count + 1)
           in case find_one (\<lambda>u. u_id u = woc_client_id wo_data) (users d) of
                None \<Rightarrow> (Inl (HTTPException 404 ''Client not found''), d)
              | Some client \<Rightarrow>
                  (let assigned_to_name =
                         (case woc_assigned_to_id wo_data of
                            None \<Rightarrow> None
                          | Some a \<Rightarrow>
                              if a \<noteq> [] then
                                (case find_one (\<lambda>u. u_id u = a) (users d) of
                                   None \<Rightarrow> None
                                 | Some tech \<Rightarrow> Some (u_name tech))
                              else None);
                       work_order =
                         \<lparr>wo_id = st_uuid wo_st, wo_request_id = request_id,
                          wo_title = woc_title wo_data,
                          wo_description = woc_description wo_data,
                          wo_status = PENDING,
                          wo_request_type = woc_request_type wo_data,
                          wo_sla_type = woc_sla_type wo_data,
                          wo_location = woc_location wo_data,
                          wo_department = woc_department wo_data,
                          wo_client_id = woc_client_id wo_data,
                          wo_client_name = u_name client,
                          wo_assigned_to_id = woc_assigned_to_id wo_data,
                          wo_assigned_to_name = assigned_to_name,
                          wo_start_date = woc_start_date wo_data,
                          wo_due_date = woc_due_date wo_data,
                          wo_completed_at = None,
                          wo_duration_days = woc_duration_days wo_data,
                          wo_is_delayed = False, wo_total_cost = 0,
                          wo_created_by_id = u_id current_user,
                          wo_created_by_name = u_name current_user,
                          wo_created_at = st_now wo_st, wo_updated_at = updated_now\<rparr>;
                       d1 = d\<lparr>work_orders := work_orders d @ [work_order]\<rparr>;
                       d2 = create_notification n1 (woc_client_id wo_data) ''New Work Order''
                              (''Work order '' @ request_id @ '' has been created'')
                              (Some (''/work-orders/'' @ wo_id work_order)) d1;
                       d3 = (case woc_assigned_to_id wo_data of
                               None \<Rightarrow> d2
                             | Some a \<Rightarrow>
                                 if a \<noteq> [] then
                                   create_notification n2 a ''New Assignment''
                                     (''You have been assigned to work order '' @ request_id)
                                     (Some (''/work-orders/'' @ wo_id work_order)) d2
                                 else d2)
                   in (Inr work_order, d3))))"

text \<open>The \<open>$set\<close> of \<open>update_data\<close>: the fields of the request that are not \<open>None\<close>,
  \<open>assigned_to_name\<close> when the new assignee was found, and \<open>updated_at\<close>.\<close>

definition apply_set ::
  "'a WorkOrderUpdate \<Rightarrow> string option \<Rightarrow> string \<Rightarrow> 'a WorkOrder \<Rightarrow> 'a WorkOrder" where
  "apply_set updates assigned_to_name updated_at w =
     w\<lparr>wo_title := (case upd_title updates of None \<Rightarrow> wo_title w | Some v \<Rightarrow> v),
       wo_description :=
         (case upd_description updates of None \<Rightarrow> wo_description w | Some v \<Rightarrow> v),
       wo_status := (case upd_status updates of None \<Rightarrow> wo_status w | Some v \<Rightarrow> v),
       wo_request_type :=
         (case upd_request_type updates of None \<Rightarrow> wo_request_type w | Some v \<Rightarrow> v),
       wo_sla_type := (case upd_sla_type updates of None \<Rightarrow> wo_sla_type w | Some v \<Rightarrow> v),
       wo_location := (case upd_location updates of None \<Rightarrow> wo_location w | Some v \<Rightarrow> v),
       wo_department :=
         (case upd_department updates of None \<Rightarrow> wo_department w | Some v \<Rightarrow> Some v),
       wo_assigned_to_id :=
         (case upd_assigned_to_id updates of None \<Rightarrow> wo_assigned_to_id w | Some v \<Rightarrow> Some v),
       wo_assigned_to_name :=
         (case assigned_to_name of None \<Rightarrow> wo_assigned_to_name w | Some v \<Rightarrow> Some v),
       wo_start_date :=
         (case upd_start_date updates of None \<Rightarrow> wo_start_date w | Some v \<Rightarrow> Some v),
       wo_due_date :=
         (case upd_due_date updates of None \<Rightarrow> wo_due_date w | Some v \<Rightarrow> Some v),
       wo_completed_at :=
         (case upd_completed_at updates of None \<Rightarrow> wo_completed_at w | Some v \<Rightarrow> Some v),
       wo_duration_days :=
         (case upd_duration_days updates of None \<Rightarrow> wo_duration_days w | Some v \<Rightarrow> Some v),
       wo_total_cost :=
         (case upd_total_cost updates of None \<Rightarrow> wo_total_cost w | Some v \<Rightarrow> v),
       wo_updated_at := updated_at\<rparr>"

text \<open>\<open>update_work_order\<close>. \<open>now\<close> is the new \<open>updated_at\<close>; \<open>n_assign\<close> and \<open>n_status\<close>
  are the id and timestamp of the assignment and of the status notification. The result
  is what the final \<open>find_one\<close> returns.\<close>

definition update_work_order ::
  "string \<Rightarrow> stamp \<Rightarrow> stamp \<Rightarrow> 'a db \<Rightarrow> string \<Rightarrow> 'a WorkOrderUpdate \<Rightarrow> User \<Rightarrow>
   (HTTPException + 'a WorkOrder option) \<times> 'a db" where
  "update_work_order now n_assign n_status d work_order_id updates current_user =
     (case find_one (\<lambda>w. wo_id w = work_order_id) (work_orders d) of
        None \<Rightarrow> (Inl (HTTPException 404 ''Work order not found''), d)
      | Some work_order \<Rightarrow>
          if u_role current_user = CLIENT
          then (Inl (HTTPException 403 ''Clients cannot update work orders''), d)
          else if u_role current_user = TECHNICIAN \<and>
                  wo_assigned_to_id work_order \<noteq> Some (u_id current_user)
          then (Inl (HTTPException 403 ''You can only update your assigned work orders''), d)
          else
            (let tech =
                   (case upd_assigned_to_id updates of
                      None \<Rightarrow> None
                    | Some a \<Rightarrow>
                        if a \<noteq> [] then find_one (\<lambda>u. u_id u = a) (users d) else None);
                 assigned_to_name = map_option u_name tech;
                 d1 = (case upd_assigned_to_id updates of
                         None \<Rightarrow> d
                       | Some a \<Rightarrow>
                           (case tech of
                              None \<Rightarrow> d
                            | Some t \<Rightarrow>
                                create_notification n_assign a ''New Assignment''
                                  (''You have been assigned to work order '' @
                                     wo_request_id work_order)
                                  (Some (''/work-orders/'' @ work_order_id)) d));
                 d2 = d1\<lparr>work_orders :=
                          update_one (\<lambda>w. wo_id w = work_order_id)
                            (apply_set updates assigned_to_name now) (work_orders d1)\<rparr>;
                 d3 = (case upd_status updates of
                         None \<Rightarrow> d2
                       | Some s \<Rightarrow>
                           create_notification n_status (wo_client_id work_order)
                             ''Work Order Updated''
                             (''Work order '' @ wo_request_id work_order @
                                '' status changed to '' @ format_status s)
                             (Some (''/work-orders/'' @ work_order_id)) d2)
             in (Inr (find_one (\<lambda>w. wo_id w = work_order_id) (work_orders d3)), d3)))"

definition delete_work_order ::
  "'a db \<Rightarrow> string \<Rightarrow> User \<Rightarrow> (HTTPException + string) \<times> 'a db" where
  "delete_work_order d work_order_id current_user =
     (case require_role [ADMIN, SUPERVISOR] current_user of
        Inl e \<Rightarrow> (Inl e, d)
      | Inr current_user \<Rightarrow>
          (case delete_one (\<lambda>w. wo_id w = work_order_id) (work_orders d) of
             (deleted_count, ws) \<Rightarrow>
               if deleted_count = 0
               then (Inl (HTTPException 404 ''Work order not found''), d\<lparr>work_orders := ws\<rparr>)
               else (Inr ''Work order deleted successfully'', d\<lparr>work_orders := ws\<rparr>)))"


section \<open>Cost entry routes\<close>

text \<open>\<open>create_cost_entry\<close>. \<open>st\<close> is the id and timestamp of the new entry, \<open>now\<close> the
  new \<open>updated_at\<close> of the work order.\<close>

definition create_cost_entry ::
  "stamp \<Rightarrow> string \<Rightarrow> 'a::{plus,zero} db \<Rightarrow> string \<Rightarrow> 'a CostEntryCreate \<Rightarrow> User \<Rightarrow>
   (HTTPException + 'a CostEntry) \<times> 'a db" where
  "create_cost_entry st now d work_order_id cost_data current_user =
     (case require_role [ADMIN, SUPERVISOR, TECHNICIAN] current_user of
        Inl e \<Rightarrow> (Inl e, d)
      | Inr current_user \<Rightarrow>
          (case find_one (\<lambda>w. wo_id w = work_order_id) (work_orders d) of
             None \<Rightarrow> (Inl (HTTPException 404 ''Work order not found''), d)
           | Some work_order \<Rightarrow>
               (let cost_entry =
                      \<lparr>ce_id = st_uuid st, ce_work_order_id = work_order_id,
                       ce_description = cec_description cost_data,
                       ce_cost_type = cec_cost_type cost_data,
                       ce_amount = cec_amount cost_data,
                       ce_created_by_id = u_id current_user,
                       ce_created_by_name = u_name current_user,
                       ce_created_at = st_now st\<rparr>;
                    d1 = d\<lparr>cost_entries := cost_entries d @ [cost_entry]\<rparr>;
                    all_costs =
                      to_list 1000
                        (filter (\<lambda>c. ce_work_order_id c = work_order_id) (cost_entries d1));
                    total_cost = py_sum (map ce_amount all_costs);
                    d2 = d1\<lparr>work_orders :=
                             update_one (\<lambda>w. wo_id w = work_order_id)
                               (\<lambda>w. w\<lparr>wo_total_cost := total_cost, wo_updated_at := now\<rparr>)
                               (work_orders d1)\<rparr>
                in (Inr cost_entry, d2))))"

section \<open>User management routes\<close>

text \<open>\<open>get_users\<close>: the projection drops \<open>password_hash\<close> from every document, and the
  response model fills the absent field with its default \<open>None\<close>.\<close>

definition get_users :: "'a db \<Rightarrow> User \<Rightarrow> HTTPException + User list" where
  "get_users d current_user =
     (case require_role [ADMIN, SUPERVISOR] current_user of
        Inl e \<Rightarrow> Inl e
      | Inr current_user \<Rightarrow>
          Inr (to_list 1000 (map (\<lambda>u. u\<lparr>u_password_hash := None\<rparr>) (users d))))"

section \<open>Dashboard statistics\<close>

text \<open>A Python number that is either an \<open>int\<close> or a \<open>float\<close>.\<close>

datatype 'a pynum = PyInt int | PyFloat 'a

text \<open>The float operations the dashboard uses: true division of two ints, the product
  of a float and an int, and \<open>round\<close> of a float to a number of decimals.\<close>

record 'a float_ops =
  true_div :: "int \<Rightarrow> int \<Rightarrow> 'a"
  mul_int :: "'a \<Rightarrow> int \<Rightarrow> 'a"
  round_ndigits :: "'a \<Rightarrow> nat \<Rightarrow> 'a"

text \<open>The builtin \<open>round(x, ndigits)\<close>: an \<open>int\<close> is returned as it is when \<open>ndigits\<close> is
  not negative.\<close>

fun py_round :: "'a float_ops \<Rightarrow> 'a pynum \<Rightarrow> nat \<Rightarrow> 'a pynum" where
  "py_round ops (PyInt i) nd = PyInt i"
| "py_round ops (PyFloat x) nd = PyFloat (round_ndigits ops x nd)"

record 'a dashboard_stats =
  ds_total_orders :: nat
  ds_pending :: nat
  ds_in_progress :: nat
  ds_completed :: nat
  ds_approved :: nat
  ds_total_cost :: 'a
  ds_completion_rate :: "'a pynum"

definition get_dashboard_stats ::
  "'a float_ops \<Rightarrow> 'a::{plus,zero} db \<Rightarrow> User \<Rightarrow> 'a dashboard_stats" where
  "get_dashboard_stats ops d current_user =
     (let query =
            (if u_role current_user = CLIENT
             then empty_query\<lparr>q_client_id := Some (u_id current_user)\<rparr>
             else if u_role current_user = TECHNICIAN
             then empty_query\<lparr>q_assigned_to_id := Some (u_id current_user)\<rparr>
             else empty_query);
          total_orders = count_documents query (work_orders d);
          pending = count_documents (query\<lparr>q_status := Some PENDING\<rparr>) (work_orders d);
          in_progress = count_documents (query\<lparr>q_status := Some IN_PROGRESS\<rparr>) (work_orders d);
          completed = count_documents (query\<lparr>q_status := Some COMPLETED\<rparr>) (work_orders d);
          approved = count_documents (query\<lparr>q_status := Some APPROVED\<rparr>) (work_orders d);
          wos = to_list 1000 (filter (matches query) (work_orders d));
          total_cost = py_sum (map wo_total_cost wos);
          completion_rate =
            (if total_orders > 0
             then PyFloat (mul_int ops
                            (true_div ops (int (completed + approved)) (int total_orders)) 100)
             else PyInt 0)
      in \<lparr>ds_total_orders = total_orders, ds_pending = pending,
          ds_in_progress = in_progress, ds_completed = completed,
          ds_approved = approved, ds_total_cost = total_cost,
          ds_completion_rate = py_round ops completion_rate 2\<rparr>)"


section \<open>Sequential runs of create and delete requests\<close>

datatype request =
    CreateRequest stamp string stamp stamp WorkOrderCreate User
  | DeleteRequest string User

text \<open>The request ids assigned by the successful creations of a run, in order.\<close>

fun run_requests :: "'a::zero db \<Rightarrow> request list \<Rightarrow> string list" where
  "run_requests d [] = []"
| "run_requests d (CreateRequest wo_st updated_now n1 n2 wo_data current_user # rs) =
     (case create_work_order wo_st updated_now n1 n2 d wo_data current_user of
        (Inl e, d') \<Rightarrow> run_requests d' rs
      | (Inr w, d') \<Rightarrow> wo_request_id w # run_requests d' rs)"
| "run_requests d (DeleteRequest work_order_id current_user # rs) =
     run_requests (snd (delete_work_order d work_order_id current_user)) rs"

fun is_create :: "request \<Rightarrow> bool" where
  "is_create (CreateRequest wo_st updated_now n1 n2 wo_data current_user) = True"
| "is_create (DeleteRequest work_order_id current_user) = False"

section \<open>Notions of the specification\<close>

text \<open>The role's ownership predicate of the specification: a client owns the orders
  whose \<open>client_id\<close> is the user's id, a technician the orders whose \<open>assigned_to_id\<close>
  is the user's id, an admin or supervisor all orders.\<close>

definition ownership_predicate :: "User \<Rightarrow> 'a WorkOrder \<Rightarrow> bool" where
  "ownership_predicate user w =
     (case u_role user of
        CLIENT \<Rightarrow> wo_client_id w = u_id user
      | TECHNICIAN \<Rightarrow> wo_assigned_to_id w = Some (u_id user)
      | ADMIN \<Rightarrow> True
      | SUPERVISOR \<Rightarrow> True)"

text \<open>The cost entries stored for a work order, and the status-change notifications of
  an inbox (the notifications the source titles \<open>Work Order Updated\<close>).\<close>

definition entries_of :: "string \<Rightarrow> 'a db \<Rightarrow> 'a CostEntry list" where
  "entries_of work_order_id d =
     filter (\<lambda>c. ce_work_order_id c = work_order_id) (cost_entries d)"

definition status_notifications :: "Notification list \<Rightarrow> Notification list" where
  "status_notifications ns = filter (\<lambda>n. n_title n = ''Work Order Updated'') ns"

text \<open>The number a string of decimal digits denotes.\<close>

definition decimal_value :: "string \<Rightarrow> nat" where
  "decimal_value s = foldl (\<lambda>acc c. 10 * acc + (of_char c - 48)) 0 s"

section \<open>Concrete stores and requests\<close>

text \<open>Exact rational arithmetic as an instance of the float operations, with rounding
  to the nearest multiple of \<open>10\<^sup>-\<^sup>n\<close>, ties to even.\<close>

definition exact_ops :: "rat float_ops" where
  "exact_ops =
     \<lparr>true_div = (\<lambda>a b. of_int a / of_int b),
      mul_int = (\<lambda>x n. x * of_int n),
      round_ndigits = (\<lambda>x nd.
        let y = x * 10 ^ nd; f = \<lfloor>y\<rfloor>; r = y - of_int f
        in of_int (if r < 1 / 2 then f else if 1 / 2 < r then f + 1
                   else if even f then f else f + 1) / 10 ^ nd)\<rparr>"

definition admin_user :: User where
  "admin_user =
     \<lparr>u_id = ''u-admin'', u_email = ''admin@example.com'', u_name = ''Alice'',
      u_role = ADMIN, u_password_hash = Some ''hash-a'', u_picture = None,
      u_is_active = True, u_created_at = ''2024-01-01T00:00:00+00:00''\<rparr>"

definition tech_user :: User where
  "tech_user =
     \<lparr>u_id = ''u-tech'', u_email = ''tech@example.com'', u_name = ''Ted'',
      u_role = TECHNICIAN, u_password_hash = Some ''hash-t'', u_picture = None,
      u_is_active = True, u_created_at = ''2024-01-02T00:00:00+00:00''\<rparr>"

definition client_user :: User where
  "client_user =
     \<lparr>u_id = ''u-client'', u_email = ''client@example.com'', u_name = ''Carol'',
      u_role = CLIENT, u_password_hash = Some ''hash-c'', u_picture = None,
      u_is_active = True, u_created_at = ''2024-01-03T00:00:00+00:00''\<rparr>"

definition stamp_of :: "string \<Rightarrow> stamp" where
  "stamp_of s = \<lparr>st_uuid = ''id-'' @ s, st_now = ''2024-02-01T00:00:0'' @ s\<rparr>"

text \<open>A store with the three users and no work order.\<close>

definition db0 :: "rat db" where
  "db0 = \<lparr>users = [admin_user, tech_user, client_user], work_orders = [],
          cost_entries = [], notifications = []\<rparr>"

definition wo_request :: "string option \<Rightarrow> WorkOrderCreate" where
  "wo_request assignee =
     \<lparr>woc_title = ''Leaking tap'', woc_description = ''Kitchen, second floor'',
      woc_request_type = PLUMBING, woc_sla_type = NORMAL, woc_location = ''Block A'',
      woc_department = None, woc_client_id = ''u-client'', woc_assigned_to_id = assignee,
      woc_start_date = None, woc_due_date = None, woc_duration_days = None\<rparr>"

definition no_updates :: "rat WorkOrderUpdate" where
  "no_updates =
     \<lparr>upd_title = None, upd_description = None, upd_status = None,
      upd_request_type = None, upd_sla_type = None, upd_location = None,
      upd_department = None, upd_assigned_to_id = None, upd_start_date = None,
      upd_due_date = None, upd_completed_at = None, upd_duration_days = None,
      upd_total_cost = None\<rparr>"

text \<open>A stored work order of the client, numbered \<open>n\<close>, with a given status.\<close>

definition order_n :: "nat \<Rightarrow> WorkOrderStatus \<Rightarrow> rat WorkOrder" where
  "order_n n s =
     \<lparr>wo_id = ''wo-'' @ decimal n, wo_request_id = ''WO-'' @ format_05d (n + 1),
      wo_title = ''Leaking tap'', wo_description = ''Kitchen, second floor'',
      wo_status = s, wo_request_type = PLUMBING, wo_sla_type = NORMAL,
      wo_location = ''Block A'', wo_department = None, wo_client_id = ''u-client'',
      wo_client_name = ''Carol'', wo_assigned_to_id = None, wo_assigned_to_name = None,
      wo_start_date = None, wo_due_date = None, wo_completed_at = None,
      wo_duration_days = None, wo_is_delayed = False, wo_total_cost = 0,
      wo_created_by_id = ''u-admin'', wo_created_by_name = ''Alice'',
      wo_created_at = ''2024-01-10T00:00:00+00:00'',
      wo_updated_at = ''2024-01-10T00:00:00+00:00''\<rparr>"

text \<open>The store with one pending work order \<open>wo-0\<close>.\<close>

definition db1 :: "rat db" where
  "db1 = db0\<lparr>work_orders := [order_n 0 PENDING]\<rparr>"

text \<open>A work order of another client, and a store with one order of each client.\<close>

definition other_order :: "rat WorkOrder" where
  "other_order =
     (order_n 1 IN_PROGRESS)\<lparr>wo_client_id := ''u-other'', wo_client_name := ''Oscar'',
        wo_assigned_to_id := Some ''u-tech'', wo_assigned_to_name := Some ''Ted''\<rparr>"

definition db_mixed :: "rat db" where
  "db_mixed = db0\<lparr>work_orders := [order_n 0 PENDING, other_order]\<rparr>"

text \<open>A store with 1001 work orders \<open>wo-0\<close>, ..., \<open>wo-1000\<close>.\<close>

definition big_db :: "rat db" where
  "big_db = db0\<lparr>work_orders := map (\<lambda>n. order_n n PENDING) [0..<1001]\<rparr>"

text \<open>Requests of the admin: creations with the stamps \<open>k\<close>, \<open>k+1\<close>, \<open>k+2\<close>, a run of
  three creations, and a run in which the first created order is deleted before the
  third creation.\<close>

definition create_request :: "string \<Rightarrow> string \<Rightarrow> string \<Rightarrow> request" where
  "create_request a b c =
     CreateRequest (stamp_of a) ''2024-02-01T00:00:00'' (stamp_of b) (stamp_of c)
       (wo_request None) admin_user"

definition creates_only :: "request list" where
  "creates_only =
     [create_request ''1'' ''2'' ''3'', create_request ''4'' ''5'' ''6'',
      create_request ''7'' ''8'' ''9'']"

definition creates_with_delete :: "request list" where
  "creates_with_delete =
     [create_request ''1'' ''2'' ''3'', create_request ''4'' ''5'' ''6'',
      DeleteRequest ''id-1'' admin_user, create_request ''7'' ''8'' ''9'']"

text \<open>The work order that the first of these creations stores.\<close>

definition created_order :: "rat WorkOrder" where
  "created_order =
     (order_n 0 PENDING)\<lparr>wo_id := ''id-1'', wo_created_at := ''2024-02-01T00:00:01'',
        wo_updated_at := ''2024-02-01T00:00:00''\<rparr>"

text \<open>Cost entries of the work order \<open>wo-0\<close>: the requests of the admin with a given
  amount, the stores after adding the amounts 10.0, 25.5 and 4.5 in turn, and the entries
  these requests store.\<close>

definition cost_request :: "rat \<Rightarrow> rat CostEntryCreate" where
  "cost_request amount =
     \<lparr>cec_work_order_id = ''wo-0'', cec_description = ''Parts'',
      cec_cost_type = ''material'', cec_amount = amount\<rparr>"

definition cost_entry_of :: "string \<Rightarrow> rat \<Rightarrow> rat CostEntry" where
  "cost_entry_of s amount =
     \<lparr>ce_id = st_uuid (stamp_of s), ce_work_order_id = ''wo-0'', ce_description = ''Parts'',
      ce_cost_type = ''material'', ce_amount = amount, ce_created_by_id = ''u-admin'',
      ce_created_by_name = ''Alice'', ce_created_at = st_now (stamp_of s)\<rparr>"

definition db_cost1 :: "rat db" where
  "db_cost1 =
     snd (create_cost_entry (stamp_of ''1'') ''2024-03-01T00:00:01'' db1 ''wo-0''
            (cost_request 10) admin_user)"

definition db_cost2 :: "rat db" where
  "db_cost2 =
     snd (create_cost_entry (stamp_of ''2'') ''2024-03-01T00:00:02'' db_cost1 ''wo-0''
            (cost_request (51 / 2)) admin_user)"

definition db_cost3 :: "rat db" where
  "db_cost3 =
     snd (create_cost_entry (stamp_of ''3'') ''2024-03-01T00:00:03'' db_cost2 ''wo-0''
            (cost_request (9 / 2)) admin_user)"

text \<open>A store in which \<open>wo-0\<close> already has 1000 cost entries of amount 1.\<close>

definition db_1000_costs :: "rat db" where
  "db_1000_costs =
     db1\<lparr>cost_entries := map (\<lambda>n. (cost_entry_of ''0'' 1)\<lparr>ce_id := ''ce-'' @ decimal n\<rparr>)
                            [0..<1000]\<rparr>"

text \<open>The work order \<open>wo-0\<close> as it is stored after the cost entries 10.0 and 25.5.\<close>

definition order_cost2 :: "rat WorkOrder" where
  "order_cost2 =
     (order_n 0 PENDING)\<lparr>wo_total_cost := 71 / 2, wo_updated_at := ''2024-03-01T00:00:02''\<rparr>"

text \<open>The work order that the first creation stores when the technician is assigned.\<close>

definition created_assigned_order :: "rat WorkOrder" where
  "created_assigned_order =
     created_order\<lparr>wo_assigned_to_id := Some ''u-tech'', wo_assigned_to_name := Some ''Ted''\<rparr>"

text \<open>A registration with the email of the stored client, and stand-ins for the hash
  and the token.\<close>

definition duplicate_registration :: UserCreate where
  "duplicate_registration =
     \<lparr>uc_email = ''client@example.com'', uc_name = ''Mallory'', uc_password = ''secret'',
      uc_role = ADMIN\<rparr>"

definition sample_hash :: "string \<Rightarrow> string" where
  "sample_hash password = ''$2b$'' @ rev password"

definition sample_token :: "string \<Rightarrow> string \<Rightarrow> string" where
  "sample_token user_id email = ''token:'' @ user_id @ '':'' @ email"

text \<open>The store \<open>db0\<close> with other password hashes.\<close>

definition db0_rehashed :: "rat db" where
  "db0_rehashed =
     db0\<lparr>users := [admin_user\<lparr>u_password_hash := Some ''other-a''\<rparr>,
                    tech_user\<lparr>u_password_hash := None\<rparr>,
                    client_user\<lparr>u_password_hash := Some ''other-c''\<rparr>]\<rparr>"

text \<open>A store with three work orders of the client: completed, approved and pending.\<close>

definition db_stats :: "rat db" where
  "db_stats =
     db0\<lparr>work_orders := [order_n 0 COMPLETED, order_n 1 APPROVED, order_n 2 PENDING]\<rparr>"

section \<open>Properties of the store primitives\<close>

lemma count_documents_empty_query: "count_documents empty_query ws = length ws"
  by (simp add: count_documents_def matches_def empty_query_def)

lemma find_one_update_one:
  "(\<And>x. p x \<Longrightarrow> p (f x)) \<Longrightarrow>
   find_one p (update_one p f ds) = map_option f (find_one p ds)"
  by (induction ds) (auto simp: find_one_def)

section \<open>Clients and work-order mutations\<close>

lemma wo_id_order_n_0: "wo_id (order_n 0 s) = ''wo-0''"
  by (simp add: order_n_def decimal.simps digit_char_def)

text \<open>
  Claim C2, as the code has it. For a user whose role is client, creating and deleting a
  work order fail with 403 (Forbidden) whatever the request, and updating fails with 403
  when the target id is stored; when the target id is not stored the update fails with
  404 (Not Found), because the handler looks the order up before it checks the role.
  In every case the store is left as it was.
\<close>

theorem client_mutations_rejected:
  assumes "u_role current_user = CLIENT"
  shows "create_work_order wo_st updated_now n1 n2 d wo_data current_user =
           (Inl (HTTPException 403 ''Insufficient permissions''), d) \<and>
         delete_work_order d work_order_id current_user =
           (Inl (HTTPException 403 ''Insufficient permissions''), d) \<and>
         update_work_order now n_assign n_status d work_order_id updates current_user =
           (if find_one (\<lambda>w. wo_id w = work_order_id) (work_orders d) = None
            then (Inl (HTTPException 404 ''Work order not found''), d)
            else (Inl (HTTPException 403 ''Clients cannot update work orders''), d))"
proof -
  have "require_role [ADMIN, SUPERVISOR] current_user =
          Inl (HTTPException 403 ''Insufficient permissions'')"
    using assms by (simp add: require_role_def)
  then have "create_work_order wo_st updated_now n1 n2 d wo_data current_user =
               (Inl (HTTPException 403 ''Insufficient permissions''), d)"
    and "delete_work_order d work_order_id current_user =
               (Inl (HTTPException 403 ''Insufficient permissions''), d)"
    by (simp_all add: create_work_order_def delete_work_order_def)
  moreover have "update_work_order now n_assign n_status d work_order_id updates current_user =
           (if find_one (\<lambda>w. wo_id w = work_order_id) (work_orders d) = None
            then (Inl (HTTPException 404 ''Work order not found''), d)
            else (Inl (HTTPException 403 ''Clients cannot update work orders''), d))"
    using assms by (simp add: update_work_order_def split: option.splits)
  ultimately show ?thesis by simp
qed

theorem client_mutations_rejected_witness:
  "u_role client_user = CLIENT \<and>
   create_work_order (stamp_of ''1'') ''t'' (stamp_of ''2'') (stamp_of ''3'') db1
       (wo_request None) client_user =
     (Inl (HTTPException 403 ''Insufficient permissions''), db1) \<and>
   delete_work_order db1 ''wo-0'' client_user =
     (Inl (HTTPException 403 ''Insufficient permissions''), db1) \<and>
   update_work_order ''t'' (stamp_of ''1'') (stamp_of ''2'') db1 ''wo-0''
       (no_updates\<lparr>upd_status := Some COMPLETED\<rparr>) client_user =
     (Inl (HTTPException 403 ''Clients cannot update work orders''), db1)"
proof -
  have role: "u_role client_user = CLIENT"
    by (simp add: client_user_def)
  have found: "find_one (\<lambda>w. wo_id w = ''wo-0'') (work_orders db1) \<noteq> None"
    by (simp add: db1_def find_one_def wo_id_order_n_0)
  show ?thesis
    using role found
      client_mutations_rejected [OF role, of "stamp_of ''1''" "''t''" "stamp_of ''2''"
        "stamp_of ''3''" db1 "wo_request None" "''wo-0''" "''t''" "stamp_of ''1''"
        "stamp_of ''2''" "no_updates\<lparr>upd_status := Some COMPLETED\<rparr>"]
    by simp
qed

text \<open>A client's update of an id that is not stored is answered with 404, not 403.\<close>

theorem client_update_absent_counterexample:
  "update_work_order ''t'' (stamp_of ''1'') (stamp_of ''2'') db0 ''missing''
       (no_updates\<lparr>upd_status := Some COMPLETED\<rparr>) client_user =
     (Inl (HTTPException 404 ''Work order not found''), db0)"
  by (simp add: update_work_order_def db0_def find_one_def)

section \<open>Decimal rendering\<close>

lemma digit_char_value: "k < 10 \<Longrightarrow> of_char (digit_char k) - 48 = k"
proof -
  assume "k < 10"
  then consider "k = 0" | "k = 1" | "k = 2" | "k = 3" | "k = 4" | "k = 5" | "k = 6"
    | "k = 7" | "k = 8" | "k = 9"
    by atomize_elim arith
  then show ?thesis
    by cases (simp_all add: digit_char_def)
qed

lemma decimal_value_snoc:
  "decimal_value (s @ [c]) = 10 * decimal_value s + (of_char c - 48)"
  by (simp add: decimal_value_def)

lemma decimal_value_decimal: "decimal_value (decimal n) = n"
proof (induction n rule: decimal.induct)
  case (1 n)
  show ?case
  proof (cases "n < 10")
    case True
    then show ?thesis
      using digit_char_value [of n]
      by (subst decimal.simps) (simp add: decimal_value_def)
  next
    case False
    then have "decimal_value (decimal (n div 10)) = n div 10"
      using "1" by simp
    moreover have "of_char (digit_char (n mod 10)) - 48 = n mod 10"
      by (rule digit_char_value) simp
    ultimately show ?thesis
      using False by (subst decimal.simps) (simp add: decimal_value_snoc)
  qed
qed

lemma decimal_inj: "decimal m = decimal n \<Longrightarrow> m = n"
  by (metis decimal_value_decimal)

lemma decimal_value_zeros: "decimal_value (replicate k CHR ''0'' @ s) = decimal_value s"
proof -
  have "foldl (\<lambda>acc c. 10 * acc + (of_char c - 48)) (0::nat) (replicate k CHR ''0'') = 0"
    by (induction k) simp_all
  then show ?thesis
    by (simp add: decimal_value_def)
qed

lemma decimal_value_format_05d: "decimal_value (format_05d n) = n"
  by (simp add: format_05d_def decimal_value_zeros decimal_value_decimal)

section \<open>Listing work orders\<close>

lemma matches_scoped_query:
  "matches (if u_role u = CLIENT then empty_query\<lparr>q_client_id := Some (u_id u)\<rparr>
            else if u_role u = TECHNICIAN then empty_query\<lparr>q_assigned_to_id := Some (u_id u)\<rparr>
            else empty_query) = ownership_predicate u"
  by (rule ext, cases "u_role u")
    (simp_all add: matches_def empty_query_def ownership_predicate_def)

lemma get_work_orders_eq:
  "get_work_orders d u =
     take 1000 (rev (sort_key wo_created_at (filter (ownership_predicate u) (work_orders d))))"
  unfolding get_work_orders_def Let_def to_list_def sort_created_at_desc_def
  by (simp only: matches_scoped_query)

lemma order_n_inj: "order_n m s = order_n n s \<Longrightarrow> m = n"
proof -
  assume "order_n m s = order_n n s"
  then have "wo_id (order_n m s) = wo_id (order_n n s)" by simp
  then show "m = n" by (simp add: order_n_def decimal_inj)
qed

text \<open>
  Claim C1, as the code has it. Listing work orders returns the stored orders that match
  the user's ownership predicate, newest first, cut off after the first 1000. Every
  returned order is a stored order matching the predicate, and whenever at most 1000
  stored orders match, the returned set is exactly the set of matching stored orders.
\<close>

theorem listing_role_scoped:
  "get_work_orders d u =
     take 1000 (rev (sort_key wo_created_at (filter (ownership_predicate u) (work_orders d)))) \<and>
   set (get_work_orders d u) \<subseteq> {w \<in> set (work_orders d). ownership_predicate u w} \<and>
   (length (filter (ownership_predicate u) (work_orders d)) \<le> 1000 \<longrightarrow>
      set (get_work_orders d u) = {w \<in> set (work_orders d). ownership_predicate u w})"
proof -
  let ?ms = "filter (ownership_predicate u) (work_orders d)"
  have eq: "get_work_orders d u = take 1000 (rev (sort_key wo_created_at ?ms))"
    by (rule get_work_orders_eq)
  have "set (take 1000 (rev (sort_key wo_created_at ?ms))) \<subseteq> set (rev (sort_key wo_created_at ?ms))"
    by (rule set_take_subset)
  then have sub: "set (get_work_orders d u) \<subseteq> {w \<in> set (work_orders d). ownership_predicate u w}"
    using eq by auto
  have "set (get_work_orders d u) = {w \<in> set (work_orders d). ownership_predicate u w}"
    if "length ?ms \<le> 1000"
  proof -
    have "take 1000 (rev (sort_key wo_created_at ?ms)) = rev (sort_key wo_created_at ?ms)"
      using that by simp
    then show ?thesis using eq by auto
  qed
  then show ?thesis using eq sub by blast
qed

theorem listing_role_scoped_witness:
  "length (filter (ownership_predicate client_user) (work_orders db_mixed)) \<le> 1000 \<and>
   get_work_orders db_mixed client_user = [order_n 0 PENDING] \<and>
   get_work_orders db_mixed tech_user = [other_order] \<and>
   set (get_work_orders db_mixed client_user) =
     {w \<in> set (work_orders db_mixed). ownership_predicate client_user w}"
proof -
  have c: "filter (ownership_predicate client_user) (work_orders db_mixed) = [order_n 0 PENDING]"
    by (simp add: db_mixed_def ownership_predicate_def client_user_def order_n_def
        other_order_def)
  have t: "filter (ownership_predicate tech_user) (work_orders db_mixed) = [other_order]"
    by (simp add: db_mixed_def ownership_predicate_def tech_user_def order_n_def
        other_order_def)
  have len: "length (filter (ownership_predicate client_user) (work_orders db_mixed)) \<le> 1000"
    by (simp add: c)
  note cl = listing_role_scoped [of db_mixed client_user]
  have l1: "get_work_orders db_mixed client_user = [order_n 0 PENDING]"
    using cl by (simp add: c)
  have l2: "get_work_orders db_mixed tech_user = [other_order]"
    using listing_role_scoped [of db_mixed tech_user] by (simp add: t)
  have l3: "set (get_work_orders db_mixed client_user) =
              {w \<in> set (work_orders db_mixed). ownership_predicate client_user w}"
    using cl len by blast
  show ?thesis
    using len l1 l2 l3 by blast
qed

text \<open>With 1001 stored work orders an admin's listing holds 1000 of them, not all.\<close>

theorem listing_all_counterexample:
  "set (get_work_orders big_db admin_user) \<noteq> set (work_orders big_db)"
proof
  assume eq: "set (get_work_orders big_db admin_user) = set (work_orders big_db)"
  have "inj_on (\<lambda>n. order_n n PENDING) (set [0..<1001])"
    by (rule inj_onI) (rule order_n_inj)
  then have "distinct (work_orders big_db)"
    by (simp add: big_db_def distinct_map)
  then have "card (set (work_orders big_db)) = length (work_orders big_db)"
    by (rule distinct_card)
  then have "card (set (work_orders big_db)) = 1001"
    by (simp add: big_db_def)
  moreover have "card (set (get_work_orders big_db admin_user)) \<le>
                   length (get_work_orders big_db admin_user)"
    by (rule card_length)
  moreover have "length (get_work_orders big_db admin_user) \<le> 1000"
    by (simp add: get_work_orders_eq)
  ultimately show False using eq by simp
qed

section \<open>Request ids\<close>

lemma create_work_order_cases:
  "(\<exists>e. create_work_order wo_st updated_now n1 n2 d wo_data cu = (Inl e, d)) \<or>
   (\<exists>w d'. create_work_order wo_st updated_now n1 n2 d wo_data cu = (Inr w, d') \<and>
      wo_request_id w = ''WO-'' @ format_05d (length (work_orders d) + 1) \<and>
      work_orders d' = work_orders d @ [w])"
  by (auto simp: create_work_order_def Let_def create_notification_def
      count_documents_empty_query split: sum.splits option.splits)

lemma create_work_order_Inr:
  assumes "create_work_order wo_st updated_now n1 n2 d wo_data cu = (Inr w, d')"
  shows "wo_request_id w = ''WO-'' @ format_05d (length (work_orders d) + 1)"
    and "work_orders d' = work_orders d @ [w]"
  using assms create_work_order_cases [of wo_st updated_now n1 n2 d wo_data cu] by auto

lemma create_work_order_Inl:
  assumes "create_work_order wo_st updated_now n1 n2 d wo_data cu = (Inl e, d')"
  shows "d' = d"
  using assms create_work_order_cases [of wo_st updated_now n1 n2 d wo_data cu] by auto

lemma run_requests_creates:
  "list_all is_create rs \<Longrightarrow>
   run_requests d rs =
     map (\<lambda>k. ''WO-'' @ format_05d k)
       [length (work_orders d) + 1 ..<
        length (work_orders d) + 1 + length (run_requests d rs)]"
proof (induction rs arbitrary: d)
  case Nil
  show ?case by simp
next
  case (Cons r rs)
  then obtain wo_st updated_now n1 n2 wo_data cu
    where r: "r = CreateRequest wo_st updated_now n1 n2 wo_data cu"
    by (cases r) auto
  obtain res d' where c: "create_work_order wo_st updated_now n1 n2 d wo_data cu = (res, d')"
    by (cases "create_work_order wo_st updated_now n1 n2 d wo_data cu")
  have rest: "list_all is_create rs" using Cons.prems by simp
  show ?case
  proof (cases res)
    case (Inl e)
    then have "d' = d" using c create_work_order_Inl by blast
    then show ?thesis
      using Inl c r Cons.IH [OF rest, of d] by simp
  next
    case (Inr w)
    then have w: "wo_request_id w = ''WO-'' @ format_05d (length (work_orders d) + 1)"
      and len: "length (work_orders d') = length (work_orders d) + 1"
      using c create_work_order_Inr [of wo_st updated_now n1 n2 d wo_data cu w d'] by auto
    define a where "a = length (work_orders d) + 1"
    define m where "m = length (run_requests d' rs)"
    have run: "run_requests d (r # rs) = wo_request_id w # run_requests d' rs"
      using Inr c r by simp
    have ih: "run_requests d' rs = map (\<lambda>k. ''WO-'' @ format_05d k) [Suc a ..< Suc a + m]"
      using Cons.IH [OF rest, of d'] by (simp add: len a_def m_def)
    have "[a ..< a + Suc m] = a # [Suc a ..< Suc a + m]"
      by (simp add: upt_conv_Cons del: upt_Suc)
    then have "map (\<lambda>k. ''WO-'' @ format_05d k) [a ..< a + Suc m] =
                 wo_request_id w # run_requests d' rs"
      using ih w by (simp add: a_def)
    moreover have "length (run_requests d (r # rs)) = Suc m"
      using run by (simp add: m_def)
    ultimately show ?thesis
      using run by (simp add: a_def)
  qed
qed

text \<open>
  Claim C4, as the code has it. A successfully created work order is assigned the request
  id \<open>WO-\<close> followed by the count of stored work orders plus one, zero-padded to five
  digits. In a sequential run that consists of creations only, the assigned request ids
  carry consecutive numbers from that count plus one on, so they are strictly increasing
  and distinct. (Nothing is promised here for runs with deletions in between.)
\<close>

theorem request_ids_sequential:
  "(fst (create_work_order wo_st updated_now n1 n2 d wo_data cu) = Inr w \<longrightarrow>
      wo_request_id w = ''WO-'' @ format_05d (length (work_orders d) + 1)) \<and>
   (list_all is_create rs \<longrightarrow>
      run_requests d rs =
        map (\<lambda>k. ''WO-'' @ format_05d k)
          [length (work_orders d) + 1 ..<
           length (work_orders d) + 1 + length (run_requests d rs)] \<and>
      sorted_wrt (<) (map (\<lambda>s. decimal_value (drop 3 s)) (run_requests d rs)) \<and>
      distinct (run_requests d rs))"
proof (intro conjI impI)
  assume "fst (create_work_order wo_st updated_now n1 n2 d wo_data cu) = Inr w"
  then show "wo_request_id w = ''WO-'' @ format_05d (length (work_orders d) + 1)"
    using create_work_order_Inr(1) [of wo_st updated_now n1 n2 d wo_data cu w]
    by (cases "create_work_order wo_st updated_now n1 n2 d wo_data cu") simp
next
  let ?a = "length (work_orders d) + 1"
  let ?ids = "run_requests d rs"
  assume cs: "list_all is_create rs"
  then show eq: "?ids = map (\<lambda>k. ''WO-'' @ format_05d k) [?a ..< ?a + length ?ids]"
    by (rule run_requests_creates)
  have nums: "map (\<lambda>s. decimal_value (drop 3 s)) ?ids = [?a ..< ?a + length ?ids]"
    by (subst eq) (simp add: decimal_value_format_05d comp_def map_idI)
  show "sorted_wrt (<) (map (\<lambda>s. decimal_value (drop 3 s)) ?ids)"
    unfolding nums by (rule sorted_wrt_upt)
  have "distinct (map (\<lambda>s. decimal_value (drop 3 s)) ?ids)"
    unfolding nums by (rule distinct_upt)
  then show "distinct ?ids"
    by (simp add: distinct_map)
qed

theorem request_ids_sequential_witness:
  "fst (create_work_order (stamp_of ''1'') ''2024-02-01T00:00:00'' (stamp_of ''2'')
          (stamp_of ''3'') db0 (wo_request None) admin_user) = Inr created_order \<and>
   wo_request_id created_order = ''WO-00001'' \<and>
   list_all is_create creates_only \<and>
   run_requests db0 creates_only = [''WO-00001'', ''WO-00002'', ''WO-00003''] \<and>
   distinct (run_requests db0 creates_only)"
proof -
  have c: "fst (create_work_order (stamp_of ''1'') ''2024-02-01T00:00:00'' (stamp_of ''2'')
          (stamp_of ''3'') db0 (wo_request None) admin_user) = Inr created_order"
    by code_simp
  have l: "list_all is_create creates_only"
    by (simp add: creates_only_def create_request_def)
  have r: "run_requests db0 creates_only = [''WO-00001'', ''WO-00002'', ''WO-00003'']"
    by code_simp
  have i: "wo_request_id created_order = ''WO-00001''"
    by code_simp
  note th = request_ids_sequential [of "stamp_of ''1''" "''2024-02-01T00:00:00''"
      "stamp_of ''2''" "stamp_of ''3''" db0 "wo_request None" admin_user created_order
      creates_only]
  have "distinct (run_requests db0 creates_only)"
    using th l by blast
  then show ?thesis
    using c l r i by blast
qed

text \<open>When the first of two created orders is deleted, the next creation is assigned
  the request id of the second again.\<close>

theorem request_ids_with_delete_counterexample:
  "run_requests db0 creates_with_delete = [''WO-00001'', ''WO-00002'', ''WO-00002'']"
  by code_simp

section \<open>Cost entries and the total cost\<close>

lemma create_cost_entry_Inr:
  assumes "create_cost_entry st now d wid cost_data cu = (Inr e, d')"
  shows "cost_entries d' = cost_entries d @ [e]"
    and "ce_work_order_id e = wid"
    and "ce_amount e = cec_amount cost_data"
    and "map_option wo_total_cost (find_one (\<lambda>w. wo_id w = wid) (work_orders d')) =
           Some (py_sum (map ce_amount (take 1000 (entries_of wid d'))))"
    and "e = \<lparr>ce_id = st_uuid st, ce_work_order_id = wid,
              ce_description = cec_description cost_data,
              ce_cost_type = cec_cost_type cost_data, ce_amount = cec_amount cost_data,
              ce_created_by_id = u_id cu, ce_created_by_name = u_name cu,
              ce_created_at = st_now st\<rparr>"
proof -
  from assms obtain wo where wo: "find_one (\<lambda>w. wo_id w = wid) (work_orders d) = Some wo"
    by (auto simp: create_cost_entry_def split: sum.splits option.splits)
  from assms have role: "require_role [ADMIN, SUPERVISOR, TECHNICIAN] cu = Inr cu"
    by (auto simp: create_cost_entry_def require_role_def split: sum.splits if_splits)
  define e0 where "e0 =
     \<lparr>ce_id = st_uuid st, ce_work_order_id = wid, ce_description = cec_description cost_data,
      ce_cost_type = cec_cost_type cost_data, ce_amount = cec_amount cost_data,
      ce_created_by_id = u_id cu, ce_created_by_name = u_name cu,
      ce_created_at = st_now st\<rparr>"
  define total where "total =
     py_sum (map ce_amount (take 1000 (filter (\<lambda>c. ce_work_order_id c = wid) (cost_entries d @ [e0]))))"
  have "create_cost_entry st now d wid cost_data cu =
          (Inr e0, d\<lparr>cost_entries := cost_entries d @ [e0],
                   work_orders := update_one (\<lambda>w. wo_id w = wid)
                      (\<lambda>w. w\<lparr>wo_total_cost := total, wo_updated_at := now\<rparr>) (work_orders d)\<rparr>)"
    by (simp add: create_cost_entry_def role wo Let_def to_list_def e0_def total_def)
  with assms have res: "e = e0"
    and d': "d' = d\<lparr>cost_entries := cost_entries d @ [e0],
                   work_orders := update_one (\<lambda>w. wo_id w = wid)
                      (\<lambda>w. w\<lparr>wo_total_cost := total, wo_updated_at := now\<rparr>) (work_orders d)\<rparr>"
    by auto
  show "cost_entries d' = cost_entries d @ [e]"
    by (simp add: d' res)
  show "ce_work_order_id e = wid" and "ce_amount e = cec_amount cost_data"
    by (simp_all add: res e0_def)
  have "find_one (\<lambda>w. wo_id w = wid) (work_orders d') =
          map_option (\<lambda>w. w\<lparr>wo_total_cost := total, wo_updated_at := now\<rparr>)
            (find_one (\<lambda>w. wo_id w = wid) (work_orders d))"
    unfolding d' by (simp add: find_one_update_one)
  then show "map_option wo_total_cost (find_one (\<lambda>w. wo_id w = wid) (work_orders d')) =
           Some (py_sum (map ce_amount (take 1000 (entries_of wid d'))))"
    by (simp add: wo total_def entries_of_def d')
  show "e = \<lparr>ce_id = st_uuid st, ce_work_order_id = wid,
              ce_description = cec_description cost_data,
              ce_cost_type = cec_cost_type cost_data, ce_amount = cec_amount cost_data,
              ce_created_by_id = u_id cu, ce_created_by_name = u_name cu,
              ce_created_at = st_now st\<rparr>"
    by (simp add: res e0_def)
qed

lemma py_sum_ones: "py_sum (replicate n (1::rat)) = of_nat n"
proof -
  have "foldl (+) a (replicate n (1::rat)) = a + of_nat n" for a
    by (induction n arbitrary: a) (simp_all add: algebra_simps)
  then show ?thesis by (simp add: py_sum_def)
qed

lemma py_sum_snoc: "py_sum (xs @ [x]) = py_sum xs + x"
  by (simp add: py_sum_def)

text \<open>With few entries stored the code does what claim C3 says: the amounts 10.0 and
  25.5 leave the total cost 35.5, and a further 4.5 leaves 40.0.\<close>

lemma total_cost_of_three_entries:
  "map ce_amount (entries_of ''wo-0'' db_cost2) = [10, 51 / 2] \<and>
   map_option wo_total_cost (find_one (\<lambda>w. wo_id w = ''wo-0'') (work_orders db_cost2)) =
     Some (71 / 2) \<and>
   map ce_amount (entries_of ''wo-0'' db_cost3) = [10, 51 / 2, 9 / 2] \<and>
   map_option wo_total_cost (find_one (\<lambda>w. wo_id w = ''wo-0'') (work_orders db_cost3)) =
     Some 40"
  by code_simp

text \<open>
  Claim C3 says that after every successful addition of a cost entry the work order's
  \<open>total_cost\<close> is the sum of the amounts of all cost entries stored for it. The code
  sums the first 1000 entries of the order only. With 1000 entries of amount 1 stored
  for \<open>wo-0\<close>, adding one more entry of amount 1 succeeds and stores the entry, so that
  1001 entries with the sum 1001 are stored for the order, and the order's \<open>total_cost\<close>
  is left at 1000.
\<close>

theorem total_cost_truncated_at_1000:
  "fst (create_cost_entry (stamp_of ''1'') ''2024-03-01T00:00:01''
          db_1000_costs ''wo-0'' (cost_request 1) admin_user) = Inr (cost_entry_of ''1'' 1) \<and>
   entries_of ''wo-0'' (snd (create_cost_entry (stamp_of ''1'') ''2024-03-01T00:00:01''
          db_1000_costs ''wo-0'' (cost_request 1) admin_user)) =
     entries_of ''wo-0'' db_1000_costs @ [cost_entry_of ''1'' 1] \<and>
   length (entries_of ''wo-0'' (snd (create_cost_entry (stamp_of ''1'') ''2024-03-01T00:00:01''
          db_1000_costs ''wo-0'' (cost_request 1) admin_user))) = 1001 \<and>
   py_sum (map ce_amount
     (entries_of ''wo-0'' (snd (create_cost_entry (stamp_of ''1'') ''2024-03-01T00:00:01''
           db_1000_costs ''wo-0'' (cost_request 1) admin_user)))) = 1001 \<and>
   map_option wo_total_cost
     (find_one (\<lambda>w. wo_id w = ''wo-0'')
        (work_orders (snd (create_cost_entry (stamp_of ''1'') ''2024-03-01T00:00:01''
           db_1000_costs ''wo-0'' (cost_request 1) admin_user)))) = Some 1000"
proof -
  obtain r d' where c: "create_cost_entry (stamp_of ''1'') ''2024-03-01T00:00:01''
           db_1000_costs ''wo-0'' (cost_request 1) admin_user = (r, d')"
    by (cases "create_cost_entry (stamp_of ''1'') ''2024-03-01T00:00:01''
           db_1000_costs ''wo-0'' (cost_request 1) admin_user")
  have "find_one (\<lambda>w. wo_id w = ''wo-0'') (work_orders db_1000_costs) \<noteq> None"
    by (simp add: db_1000_costs_def db1_def find_one_def wo_id_order_n_0)
  then obtain e where r: "r = Inr e"
    using c
    by (auto simp: create_cost_entry_def require_role_def admin_user_def Let_def
        split: option.splits)
  note facts = create_cost_entry_Inr [OF c [unfolded r]]
  have e: "e = cost_entry_of ''1'' 1"
    using facts(5) by (simp add: cost_entry_of_def cost_request_def admin_user_def)
  have old: "entries_of ''wo-0'' db_1000_costs = cost_entries db_1000_costs"
    by (simp add: entries_of_def db_1000_costs_def cost_entry_of_def)
  have amounts: "map ce_amount (cost_entries db_1000_costs) = replicate 1000 1"
    by (simp add: db_1000_costs_def cost_entry_of_def comp_def map_replicate_const)
  have len: "length (cost_entries db_1000_costs) = 1000"
    by (simp add: db_1000_costs_def)
  have new: "entries_of ''wo-0'' d' = cost_entries db_1000_costs @ [e]"
    using facts(1,2) old by (simp add: entries_of_def)
  have total: "py_sum (map ce_amount (take 1000 (entries_of ''wo-0'' d'))) = 1000"
    using py_sum_ones [of 1000] by (simp add: new len amounts)
  have all: "py_sum (map ce_amount (entries_of ''wo-0'' d')) = 1001"
    using py_sum_ones [of 1000] facts(3)
    by (simp add: new amounts cost_request_def py_sum_snoc)
  have "length (entries_of ''wo-0'' d') = 1001"
    by (simp add: new len)
  then show ?thesis
    using facts(4) c r e new old total all by simp
qed

section \<open>Updating a work order\<close>

text \<open>What an update does when the order is stored and the actor passes the permission
  checks: the projections of the store afterwards.\<close>

lemma update_work_order_authorized:
  fixes now n_assign n_status updates
  assumes found: "find_one (\<lambda>w. wo_id w = wid) (work_orders d) = Some wo"
    and role: "u_role cu \<noteq> CLIENT"
    and tech: "u_role cu = TECHNICIAN \<longrightarrow> wo_assigned_to_id wo = Some (u_id cu)"
  defines "res \<equiv> update_work_order now n_assign n_status d wid updates cu"
  shows "work_orders (snd res) =
           update_one (\<lambda>w. wo_id w = wid)
             (apply_set updates
                (map_option u_name
                   (case upd_assigned_to_id updates of
                      None \<Rightarrow> None
                    | Some a \<Rightarrow>
                        if a \<noteq> [] then find_one (\<lambda>u. u_id u = a) (users d) else None))
                now)
             (work_orders d)"
    and "cost_entries (snd res) = cost_entries d"
    and "fst res = Inr (find_one (\<lambda>w. wo_id w = wid) (work_orders (snd res)))"
    and "status_notifications (notifications (snd res)) =
           status_notifications (notifications d) @
           (case upd_status updates of
              None \<Rightarrow> []
            | Some s \<Rightarrow>
                [\<lparr>n_id = st_uuid n_status, n_user_id = wo_client_id wo,
                  n_title = ''Work Order Updated'',
                  n_message = ''Work order '' @ wo_request_id wo @
                              '' status changed to '' @ format_status s,
                  n_link = Some (''/work-orders/'' @ wid), n_is_read = False,
                  n_created_at = st_now n_status\<rparr>])"
proof -
  have gate: "\<not> (u_role cu = TECHNICIAN \<and> wo_assigned_to_id wo \<noteq> Some (u_id cu))"
    using tech by simp
  show "work_orders (snd res) =
           update_one (\<lambda>w. wo_id w = wid)
             (apply_set updates
                (map_option u_name
                   (case upd_assigned_to_id updates of
                      None \<Rightarrow> None
                    | Some a \<Rightarrow>
                        if a \<noteq> [] then find_one (\<lambda>u. u_id u = a) (users d) else None))
                now)
             (work_orders d)"
    unfolding res_def update_work_order_def
    by (simp add: found role gate Let_def create_notification_def split: option.splits)
  show "cost_entries (snd res) = cost_entries d"
    unfolding res_def update_work_order_def
    by (simp add: found role gate Let_def create_notification_def split: option.splits)
  show "fst res = Inr (find_one (\<lambda>w. wo_id w = wid) (work_orders (snd res)))"
    unfolding res_def update_work_order_def
    by (simp add: found role gate Let_def)
  show "status_notifications (notifications (snd res)) =
           status_notifications (notifications d) @
           (case upd_status updates of
              None \<Rightarrow> []
            | Some s \<Rightarrow>
                [\<lparr>n_id = st_uuid n_status, n_user_id = wo_client_id wo,
                  n_title = ''Work Order Updated'',
                  n_message = ''Work order '' @ wo_request_id wo @
                              '' status changed to '' @ format_status s,
                  n_link = Some (''/work-orders/'' @ wid), n_is_read = False,
                  n_created_at = st_now n_status\<rparr>])"
    unfolding res_def update_work_order_def
    by (simp add: found role gate Let_def create_notification_def status_notifications_def
        split: option.splits)
qed

lemma wo_id_apply_set: "wo_id (apply_set updates name now w) = wo_id w"
  by (simp add: apply_set_def)

text \<open>
  Claim C5 says that a status-change notification is emitted exactly when the update
  changes the stored status. The code emits it whenever the request provides a status.
  When the admin updates the pending work order \<open>wo-0\<close> with the status \<open>pending\<close>, the
  update succeeds, the stored status is \<open>pending\<close> before and after, and one notification
  telling the client that the status changed is emitted.
\<close>

theorem status_notification_without_change:
  "map_option wo_status (find_one (\<lambda>w. wo_id w = ''wo-0'') (work_orders db1)) =
     Some PENDING \<and>
   (case fst (update_work_order ''2024-03-01T00:00:00'' (stamp_of ''1'') (stamp_of ''2'') db1
                ''wo-0'' (no_updates\<lparr>upd_status := Some PENDING\<rparr>) admin_user) of
      Inl e \<Rightarrow> None
    | Inr w \<Rightarrow> map_option wo_status w) = Some PENDING \<and>
   map_option wo_status (find_one (\<lambda>w. wo_id w = ''wo-0'') (work_orders
     (snd (update_work_order ''2024-03-01T00:00:00'' (stamp_of ''1'') (stamp_of ''2'') db1
             ''wo-0'' (no_updates\<lparr>upd_status := Some PENDING\<rparr>) admin_user)))) =
     Some PENDING \<and>
   notifications db1 = [] \<and>
   notifications
     (snd (update_work_order ''2024-03-01T00:00:00'' (stamp_of ''1'') (stamp_of ''2'') db1
             ''wo-0'' (no_updates\<lparr>upd_status := Some PENDING\<rparr>) admin_user)) =
     [\<lparr>n_id = ''id-2'', n_user_id = ''u-client'', n_title = ''Work Order Updated'',
       n_message = ''Work order WO-00001 status changed to WorkOrderStatus.PENDING'',
       n_link = Some ''/work-orders/wo-0'', n_is_read = False,
       n_created_at = ''2024-02-01T00:00:02''\<rparr>]"
  by code_simp

text \<open>
  Claim C9. When an authorized actor updates a stored work order and the request carries
  a \<open>total_cost\<close>, the update succeeds, the returned and the stored work order have
  exactly that \<open>total_cost\<close>, and the cost entries are left as they were and are not
  read; so the stored \<open>total_cost\<close> differs from the sum of the order's cost entries
  whenever the requested value does.
\<close>

theorem patch_total_cost_verbatim:
  assumes "find_one (\<lambda>w. wo_id w = wid) (work_orders d) = Some wo"
    and "u_role cu \<noteq> CLIENT"
    and "u_role cu = TECHNICIAN \<longrightarrow> wo_assigned_to_id wo = Some (u_id cu)"
    and "upd_total_cost updates = Some c"
  shows "\<exists>w'. fst (update_work_order now n_assign n_status d wid updates cu) = Inr (Some w') \<and>
           find_one (\<lambda>w. wo_id w = wid)
             (work_orders (snd (update_work_order now n_assign n_status d wid updates cu))) =
             Some w' \<and>
           wo_total_cost w' = c \<and>
           entries_of wid (snd (update_work_order now n_assign n_status d wid updates cu)) =
             entries_of wid d \<and>
           (c \<noteq> py_sum (map ce_amount (entries_of wid d)) \<longrightarrow>
              wo_total_cost w' \<noteq>
                py_sum (map ce_amount (entries_of wid
                  (snd (update_work_order now n_assign n_status d wid updates cu)))))"
proof -
  let ?res = "update_work_order now n_assign n_status d wid updates cu"
  note facts = update_work_order_authorized [OF assms(1-3), of now n_assign n_status updates]
  obtain name where ws: "work_orders (snd ?res) =
      update_one (\<lambda>w. wo_id w = wid) (apply_set updates name now) (work_orders d)"
    using facts(1) by blast
  have stored: "find_one (\<lambda>w. wo_id w = wid) (work_orders (snd ?res)) =
                  Some (apply_set updates name now wo)"
    unfolding ws by (simp add: find_one_update_one wo_id_apply_set assms(1))
  have cost: "wo_total_cost (apply_set updates name now wo) = c"
    by (simp add: apply_set_def assms(4))
  have entries: "entries_of wid (snd ?res) = entries_of wid d"
    using facts(2) by (simp add: entries_of_def)
  show ?thesis
    using facts(3) stored cost entries by simp
qed

theorem patch_total_cost_verbatim_witness:
  "find_one (\<lambda>w. wo_id w = ''wo-0'') (work_orders db_cost2) = Some order_cost2 \<and>
   u_role admin_user \<noteq> CLIENT \<and>
   map_option wo_total_cost (find_one (\<lambda>w. wo_id w = ''wo-0'') (work_orders
     (snd (update_work_order ''2024-03-02T00:00:00'' (stamp_of ''4'') (stamp_of ''5'') db_cost2
        ''wo-0'' (no_updates\<lparr>upd_total_cost := Some 999\<rparr>) admin_user)))) = Some 999 \<and>
   py_sum (map ce_amount (entries_of ''wo-0''
     (snd (update_work_order ''2024-03-02T00:00:00'' (stamp_of ''4'') (stamp_of ''5'') db_cost2
        ''wo-0'' (no_updates\<lparr>upd_total_cost := Some 999\<rparr>) admin_user)))) = 71 / 2"
proof -
  have f: "find_one (\<lambda>w. wo_id w = ''wo-0'') (work_orders db_cost2) = Some order_cost2"
    by code_simp
  have r: "u_role admin_user \<noteq> CLIENT"
    by (simp add: admin_user_def)
  have t: "u_role admin_user = TECHNICIAN \<longrightarrow>
             wo_assigned_to_id order_cost2 = Some (u_id admin_user)"
    by (simp add: admin_user_def)
  have u: "upd_total_cost (no_updates\<lparr>upd_total_cost := Some 999\<rparr>) = Some 999"
    by simp
  have s: "py_sum (map ce_amount (entries_of ''wo-0'' db_cost2)) = 71 / 2"
    by code_simp
  show ?thesis
    using f r s
      patch_total_cost_verbatim [OF f r t u, of "''2024-03-02T00:00:00''" "stamp_of ''4''"
        "stamp_of ''5''"]
    by auto
qed

section \<open>Notifications of a creation\<close>

text \<open>
  Claim C6, as the code has it. A successful work-order creation appends to the stored
  notifications exactly one notification, addressed to the client, when the assignee id
  is absent or the empty string, and exactly two, the first addressed to the client and
  the second to the assignee, when the assignee id is a non-empty string.
\<close>

theorem creation_notifications:
  assumes "fst (create_work_order wo_st updated_now n1 n2 d wo_data cu) = Inr w"
  shows "notifications (snd (create_work_order wo_st updated_now n1 n2 d wo_data cu)) =
           notifications d @
           [\<lparr>n_id = st_uuid n1, n_user_id = woc_client_id wo_data,
             n_title = ''New Work Order'',
             n_message = ''Work order '' @ wo_request_id w @ '' has been created'',
             n_link = Some (''/work-orders/'' @ wo_id w), n_is_read = False,
             n_created_at = st_now n1\<rparr>] @
           (case woc_assigned_to_id wo_data of
              None \<Rightarrow> []
            | Some a \<Rightarrow>
                if a = [] then []
                else [\<lparr>n_id = st_uuid n2, n_user_id = a, n_title = ''New Assignment'',
                       n_message = ''You have been assigned to work order '' @ wo_request_id w,
                       n_link = Some (''/work-orders/'' @ wo_id w), n_is_read = False,
                       n_created_at = st_now n2\<rparr>])"
  using assms
  by (auto simp: create_work_order_def Let_def create_notification_def
      split: sum.splits option.splits)

theorem creation_notifications_witness:
  "fst (create_work_order (stamp_of ''1'') ''2024-02-01T00:00:00'' (stamp_of ''2'')
          (stamp_of ''3'') db0 (wo_request None) admin_user) = Inr created_order \<and>
   map n_user_id (notifications
     (snd (create_work_order (stamp_of ''1'') ''2024-02-01T00:00:00'' (stamp_of ''2'')
          (stamp_of ''3'') db0 (wo_request None) admin_user))) = [''u-client''] \<and>
   fst (create_work_order (stamp_of ''1'') ''2024-02-01T00:00:00'' (stamp_of ''2'')
          (stamp_of ''3'') db0 (wo_request (Some ''u-tech'')) admin_user) =
     Inr created_assigned_order \<and>
   map n_user_id (notifications
     (snd (create_work_order (stamp_of ''1'') ''2024-02-01T00:00:00'' (stamp_of ''2'')
          (stamp_of ''3'') db0 (wo_request (Some ''u-tech'')) admin_user))) =
     [''u-client'', ''u-tech'']"
proof -
  have a: "fst (create_work_order (stamp_of ''1'') ''2024-02-01T00:00:00'' (stamp_of ''2'')
          (stamp_of ''3'') db0 (wo_request None) admin_user) = Inr created_order"
    by code_simp
  have b: "fst (create_work_order (stamp_of ''1'') ''2024-02-01T00:00:00'' (stamp_of ''2'')
          (stamp_of ''3'') db0 (wo_request (Some ''u-tech'')) admin_user) =
     Inr created_assigned_order"
    by code_simp
  have n: "notifications db0 = []"
    by (simp add: db0_def)
  show ?thesis
    using a b creation_notifications [OF a] creation_notifications [OF b]
    by (simp add: n wo_request_def)
qed

text \<open>A creation whose assignee id is the empty string stores the order with that
  assignee id and emits the client's notification only.\<close>

theorem creation_empty_assignee_counterexample:
  "(case fst (create_work_order (stamp_of ''1'') ''2024-02-01T00:00:00'' (stamp_of ''2'')
               (stamp_of ''3'') db0 (wo_request (Some '''')) admin_user) of
      Inl e \<Rightarrow> None
    | Inr w \<Rightarrow> wo_assigned_to_id w) = Some '''' \<and>
   map n_user_id (notifications
     (snd (create_work_order (stamp_of ''1'') ''2024-02-01T00:00:00'' (stamp_of ''2'')
          (stamp_of ''3'') db0 (wo_request (Some '''')) admin_user))) = [''u-client'']"
  by code_simp

section \<open>Registration\<close>

text \<open>
  Claim C7. When the email of a registration request belongs to a stored user, \<open>register\<close>
  fails with the duplicate-email error (the specification's Conflict, raised as status
  400 with the detail \<open>Email already registered\<close>); the result carries no token, and the
  store, with the existing user's record, is left as it was.
\<close>

theorem register_duplicate_email:
  assumes "\<exists>u \<in> set (users d). u_email u = uc_email user_data"
  shows "register hash_password create_access_token st d user_data =
           (Inl (HTTPException 400 ''Email already registered''), d)"
proof -
  have "find_one (\<lambda>u. u_email u = uc_email user_data) (users d) \<noteq> None"
    using assms by (auto simp: find_one_def find_None_iff)
  then show ?thesis
    by (auto simp: register_def)
qed

theorem register_duplicate_email_witness:
  "(\<exists>u \<in> set (users db0). u_email u = uc_email duplicate_registration) \<and>
   register sample_hash sample_token (stamp_of ''1'') db0 duplicate_registration =
     (Inl (HTTPException 400 ''Email already registered''), db0)"
proof -
  have e: "\<exists>u \<in> set (users db0). u_email u = uc_email duplicate_registration"
    by (simp add: db0_def duplicate_registration_def client_user_def)
  show ?thesis
    using e register_duplicate_email [OF e] by simp
qed

section \<open>Listing users\<close>

lemma strip_hashes_eq:
  "list_all2 (\<lambda>u v. \<exists>h. v = u\<lparr>u_password_hash := h\<rparr>) us vs \<Longrightarrow>
   map (\<lambda>u. u\<lparr>u_password_hash := None\<rparr>) us = map (\<lambda>u. u\<lparr>u_password_hash := None\<rparr>) vs"
  by (induction us vs rule: list_all2_induct) auto

text \<open>
  Claim C10. The user listing does not depend on the stored password hashes: for two
  stores whose user collections differ at most in the \<open>password_hash\<close> of their users,
  the listing returns the same result; and every user of a returned list has no
  \<open>password_hash\<close>.
\<close>

theorem get_users_hides_hashes:
  assumes "list_all2 (\<lambda>u v. \<exists>h. v = u\<lparr>u_password_hash := h\<rparr>) (users d1) (users d2)"
  shows "get_users d1 cu = get_users d2 cu \<and>
         (case get_users d1 cu of
            Inl e \<Rightarrow> True
          | Inr us \<Rightarrow> list_all (\<lambda>u. u_password_hash u = None) us)"
proof -
  have "get_users d1 cu = get_users d2 cu"
    by (simp add: get_users_def strip_hashes_eq [OF assms] split: sum.splits)
  moreover have "list_all (\<lambda>u. u_password_hash u = None)
                   (to_list 1000 (map (\<lambda>u. u\<lparr>u_password_hash := None\<rparr>) (users d1)))"
  proof -
    have "set (take 1000 (map (\<lambda>u. u\<lparr>u_password_hash := None\<rparr>) (users d1))) \<subseteq>
            set (map (\<lambda>u. u\<lparr>u_password_hash := None\<rparr>) (users d1))"
      by (rule set_take_subset)
    then show ?thesis
      by (auto simp: list_all_iff to_list_def)
  qed
  ultimately show ?thesis
    by (simp add: get_users_def split: sum.splits)
qed

theorem get_users_hides_hashes_witness:
  "list_all2 (\<lambda>u v. \<exists>h. v = u\<lparr>u_password_hash := h\<rparr>) (users db0) (users db0_rehashed) \<and>
   users db0 \<noteq> users db0_rehashed \<and>
   get_users db0 admin_user = get_users db0_rehashed admin_user \<and>
   get_users db0 admin_user =
     Inr [admin_user\<lparr>u_password_hash := None\<rparr>, tech_user\<lparr>u_password_hash := None\<rparr>,
          client_user\<lparr>u_password_hash := None\<rparr>]"
proof -
  have a: "list_all2 (\<lambda>u v. \<exists>h. v = u\<lparr>u_password_hash := h\<rparr>) (users db0)
             (users db0_rehashed)"
    by (auto simp: db0_def db0_rehashed_def)
  have b: "users db0 \<noteq> users db0_rehashed"
    by (simp add: db0_def db0_rehashed_def admin_user_def)
  have c: "get_users db0 admin_user =
     Inr [admin_user\<lparr>u_password_hash := None\<rparr>, tech_user\<lparr>u_password_hash := None\<rparr>,
          client_user\<lparr>u_password_hash := None\<rparr>]"
    by (simp add: get_users_def require_role_def admin_user_def db0_def to_list_def)
  show ?thesis
    using a b c get_users_hides_hashes [OF a, of admin_user] by simp
qed

section \<open>Dashboard completion rate\<close>

lemma matches_with_status:
  "q_status q = None \<Longrightarrow>
   matches (q\<lparr>q_status := Some s\<rparr>) = (\<lambda>w. matches q w \<and> wo_status w = s)"
  by (rule ext) (auto simp: matches_def)

lemma count_documents_status:
  "q_status q = None \<Longrightarrow>
   count_documents (q\<lparr>q_status := Some s\<rparr>) ws =
     length (filter (\<lambda>w. wo_status w = s) (filter (matches q) ws))"
  by (simp add: count_documents_def matches_with_status)

lemma scoped_query_no_status:
  "q_status (if u_role u = CLIENT then empty_query\<lparr>q_client_id := Some (u_id u)\<rparr>
             else if u_role u = TECHNICIAN then empty_query\<lparr>q_assigned_to_id := Some (u_id u)\<rparr>
             else empty_query) = None"
  by (simp add: empty_query_def)

text \<open>
  Claim C8. Over the caller's role-scoped work orders the dashboard computes
  \<open>completion_rate\<close> as \<open>(completed + approved) / total_orders * 100\<close>, rounded to 2
  decimals; when no work order is in scope it is the integer 0 and nothing is divided.
\<close>

theorem completion_rate_scoped:
  "ds_completion_rate (get_dashboard_stats ops d u) =
     (let scoped = filter (ownership_predicate u) (work_orders d);
          completed = length (filter (\<lambda>w. wo_status w = COMPLETED) scoped);
          approved = length (filter (\<lambda>w. wo_status w = APPROVED) scoped);
          total_orders = length scoped
      in if scoped = [] then PyInt 0
         else PyFloat (round_ndigits ops
                (mul_int ops (true_div ops (int (completed + approved)) (int total_orders)) 100)
                2))"
proof -
  let ?q = "if u_role u = CLIENT then empty_query\<lparr>q_client_id := Some (u_id u)\<rparr>
            else if u_role u = TECHNICIAN
            then empty_query\<lparr>q_assigned_to_id := Some (u_id u)\<rparr>
            else empty_query"
  have total: "count_documents ?q (work_orders d) =
                 length (filter (ownership_predicate u) (work_orders d))"
    unfolding count_documents_def by (simp only: matches_scoped_query)
  have status: "count_documents (?q\<lparr>q_status := Some s\<rparr>) (work_orders d) =
      length (filter (\<lambda>w. wo_status w = s) (filter (ownership_predicate u) (work_orders d)))"
    for s
    by (subst count_documents_status [OF scoped_query_no_status])
      (simp only: matches_scoped_query)
  show ?thesis
    unfolding get_dashboard_stats_def Let_def
    by (simp only: total status) simp
qed

theorem completion_rate_scoped_witness:
  "ds_completion_rate (get_dashboard_stats exact_ops db_stats client_user) =
     PyFloat (6667 / 100) \<and>
   ds_completion_rate (get_dashboard_stats exact_ops db_stats tech_user) = PyInt 0 \<and>
   ds_completion_rate (get_dashboard_stats exact_ops db0 admin_user) = PyInt 0"
proof -
  have c: "filter (ownership_predicate client_user) (work_orders db_stats) =
             [order_n 0 COMPLETED, order_n 1 APPROVED, order_n 2 PENDING]"
    by (simp add: db_stats_def ownership_predicate_def client_user_def order_n_def)
  have t: "filter (ownership_predicate tech_user) (work_orders db_stats) = []"
    by (simp add: db_stats_def ownership_predicate_def tech_user_def order_n_def)
  have a: "filter (ownership_predicate admin_user) (work_orders db0) = []"
    by (simp add: db0_def)
  have s: "wo_status (order_n n st) = st" for n st
    by (simp add: order_n_def)
  have r: "round_ndigits exact_ops (mul_int exact_ops (true_div exact_ops 2 3) 100) 2 =
             6667 / 100"
    by code_simp
  show ?thesis
    using completion_rate_scoped [of exact_ops db_stats client_user]
      completion_rate_scoped [of exact_ops db_stats tech_user]
      completion_rate_scoped [of exact_ops db0 admin_user]
    by (simp add: c t a s r)
qed

end
